theory Spec2Isabelle
  imports Main
begin

section \<open>Python values and text\<close>

text \<open>
  The script \<^verbatim>\<open>autorefresh.py\<close> serves one file over HTTP and pushes a
  \<^verbatim>\<open>refresh\<close> event to every browser connected to \<^verbatim>\<open>/refresh\<close> when the process
  receives SIGHUP. Python's integers are unbounded, so they are \<^typ>\<open>int\<close> here; text and
  byte strings (all ASCII in this script) are \<^typ>\<open>string\<close>.
\<close>

datatype pyval = PyNone | PyStr string | PyInt int

definition of_optional :: "string option \<Rightarrow> pyval" where
  "of_optional v = (case v of None \<Rightarrow> PyNone | Some t \<Rightarrow> PyStr t)"

definition digit :: "nat \<Rightarrow> char" where
  "digit d =
     (if d = 0 then CHR ''0'' else if d = 1 then CHR ''1'' else if d = 2 then CHR ''2''
      else if d = 3 then CHR ''3'' else if d = 4 then CHR ''4'' else if d = 5 then CHR ''5''
      else if d = 6 then CHR ''6'' else if d = 7 then CHR ''7'' else if d = 8 then CHR ''8''
      else CHR ''9'')"

fun str_nat :: "nat \<Rightarrow> string" where
  "str_nat n = (if n < 10 then [digit n] else str_nat (n div 10) @ [digit (n mod 10)])"

declare str_nat.simps [simp del]

text \<open>What \<^verbatim>\<open>'{}'.format(i)\<close> gives for an integer: its decimal digits, with a sign.\<close>

definition str_int :: "int \<Rightarrow> string" where
  "str_int i = (if i < 0 then CHR ''-'' # str_nat (nat (- i)) else str_nat (nat i))"

section \<open>The static index document\<close>

definition indexData :: string where
  "indexData =
     ''<!doctype html>\<newline>'' @
     ''<html>\<newline>'' @
     ''<script>\<newline>'' @
     ''    window.onload = function onload() {\<newline>'' @
     ''        const fileFrame = document.getElementById('fileFrame');\<newline>'' @
     ''        const errorElem = document.getElementById('error');\<newline>'' @
     ''        const fileSrc = fileFrame.src;\<newline>'' @
     ''\<newline>'' @
     ''        function setError(msg) {\<newline>'' @
     ''            if (!msg) {\<newline>'' @
     ''                errorElem.classList.add('hidden');\<newline>'' @
     ''                errorElem.textContent = '' @ [CHR 0x27, CHR 0x27] @ '';\<newline>'' @
     ''                return;\<newline>'' @
     ''            }\<newline>'' @
     ''\<newline>'' @
     ''            errorElem.classList.remove('hidden');\<newline>'' @
     ''            errorElem.textContent = msg;\<newline>'' @
     ''        }\<newline>'' @
     ''\<newline>'' @
     ''        function createEventSource() {\<newline>'' @
     ''            eventSource = new EventSource('/refresh');\<newline>'' @
     ''            eventSource.addEventListener('open', function onopen(event) {\<newline>'' @
     ''                console.log(event);\<newline>'' @
     ''                setError(null);\<newline>'' @
     ''            });\<newline>'' @
     ''            eventSource.addEventListener('refresh', function onrefresh(event) {\<newline>'' @
     ''                console.log(event);\<newline>'' @
     ''                setError(null);\<newline>'' @
     ''                fileFrame.src = fileSrc;\<newline>'' @
     ''            });\<newline>'' @
     ''            eventSource.addEventListener('error', function onerror(event) {\<newline>'' @
     ''                console.log(event);\<newline>'' @
     ''                setError('connection lost: ' + Date());\<newline>'' @
     ''                event.target.close();\<newline>'' @
     ''\<newline>'' @
     ''                // try to re-establish connection\<newline>'' @
     ''                setTimeout(createEventSource, 5000);\<newline>'' @
     ''            });\<newline>'' @
     ''        }\<newline>'' @
     ''\<newline>'' @
     ''        createEventSource();\<newline>'' @
     ''    };\<newline>'' @
     ''</script>\<newline>'' @
     ''<style>\<newline>'' @
     ''    body {\<newline>'' @
     ''        margin: 0;\<newline>'' @
     ''        display: flex;\<newline>'' @
     ''        flex-flow: column nowrap;\<newline>'' @
     ''        height: 100vh;\<newline>'' @
     ''    }\<newline>'' @
     ''    #error {\<newline>'' @
     ''        margin: 0;\<newline>'' @
     ''        background: red;\<newline>'' @
     ''        color: white;\<newline>'' @
     ''    }\<newline>'' @
     ''    #error.hidden {\<newline>'' @
     ''        display: none;\<newline>'' @
     ''    }\<newline>'' @
     ''    iframe#fileFrame {\<newline>'' @
     ''        border: 0;\<newline>'' @
     ''        flex: 1;\<newline>'' @
     ''    }\<newline>'' @
     ''</style>\<newline>'' @
     ''    <head>\<newline>'' @
     ''        <title>File</title>\<newline>'' @
     ''    </head>\<newline>'' @
     ''    <body>\<newline>'' @
     ''        <pre id=\"error\" class=\"hidden\"></pre>\<newline>'' @
     ''        <iframe\<newline>'' @
     ''            id=\"fileFrame\"\<newline>'' @
     ''            src=\"/file\"\<newline>'' @
     ''        >\<newline>'' @
     ''        </iframe>\<newline>'' @
     ''    </body>\<newline>'' @
     ''</html>\<newline>''"

section \<open>Module state: the generation counter and the log\<close>

datatype level = DEBUG | INFO | WARNING | ERROR

type_synonym log_record = "level \<times> string \<times> pyval list"

text \<open>
  The module-level variables: \<^verbatim>\<open>refreshId\<close> (guarded by \<^verbatim>\<open>refreshCond\<close>), what has been
  handed to the logger \<^verbatim>\<open>log\<close>, and the two class attributes of \<^verbatim>\<open>FileHandler\<close>, which
  every request handler reads.
\<close>

record module =
  refreshId :: int
  log :: "log_record list"
  FILE_PATH :: "string option"
  FILE_MIMETYPE :: "string option"

definition REFRESH_ID_MAX :: int where
  "REFRESH_ID_MAX = 2 ^ 16"

definition module_init :: module where
  "module_init = \<lparr>refreshId = 0, log = [], FILE_PATH = None, FILE_MIMETYPE = None\<rparr>"

text \<open>
  \<^verbatim>\<open>handleSighup\<close>: under the lock, \<^verbatim>\<open>refreshId = (refreshId + 1) % REFRESH_ID_MAX\<close>.
  The \<^verbatim>\<open>notify_all\<close> that follows wakes the parked handlers; a handler's wake-up is an
  event of its schedule below.
\<close>

definition handleSighup :: "'a module_scheme \<Rightarrow> 'a module_scheme" where
  "handleSighup m = m\<lparr>refreshId := (refreshId m + 1) mod REFRESH_ID_MAX\<rparr>"

definition log_info :: "string \<Rightarrow> pyval list \<Rightarrow> 'a module_scheme \<Rightarrow> 'a module_scheme" where
  "log_info format args m = m\<lparr>log := log m @ [(INFO, format, args)]\<rparr>"

section \<open>One request handler\<close>

text \<open>
  The exceptions that reach the handler. A write to a connection whose peer has gone away
  raises \<^verbatim>\<open>BrokenPipeError\<close> (the peer closed the connection) or \<^verbatim>\<open>ConnectionResetError\<close>
  (the peer reset it); the two are distinct classes, and neither is a subclass of the other.
  \<^verbatim>\<open>OSError\<close> stands for every other I/O error (a missing or unreadable file, a failed
  bind); \<^verbatim>\<open>TypeError\<close> is what \<^verbatim>\<open>open(None)\<close> raises.
\<close>

datatype exn = BrokenPipeError | ConnectionResetError | OSError | TypeError

text \<open>
  What the handler puts on the connection. A header line is the keyword and the value as
  text, as \<^verbatim>\<open>send_header\<close> formats them. \<^verbatim>\<open>end_headers\<close> writes the buffered lines in
  one write. \<open>ErrorPage code\<close> is the error document that the library's \<^verbatim>\<open>send_error\<close>
  generates.
\<close>

datatype hline = StatusLine string nat | HeaderLine string string

datatype chunk = Head "hline list" | Body string | ErrorPage nat

text \<open>
  A handler is one \<^verbatim>\<open>FileHandler\<close> instance together with the module state it reads.
  \<open>wfile\<close> is everything written to the client so far. \<open>fault\<close> describes the
  connection: \<open>None\<close> when every write succeeds, \<open>Some (n, e)\<close> when \<open>n\<close> more writes
  succeed and every later one raises \<open>e\<close>.
\<close>

record handler = module +
  path :: string
  requestline :: string
  protocol_version :: string
  headers_buffer :: "hline list"
  wfile :: "chunk list"
  fault :: "(nat \<times> exn) option"

text \<open>
  Where the event-stream loop of \<^verbatim>\<open>handleRefresh\<close> stands: at the head of the outer
  \<^verbatim>\<open>while True\<close>, outside the lock, or parked in \<^verbatim>\<open>refreshCond.wait(timeout)\<close> with the
  baseline \<^verbatim>\<open>lastMsgId\<close> it captured.
\<close>

datatype pc = LoopHead | Waiting int nat

text \<open>
  How a piece of handler code ends: it returns, it raises, or (for the endless loop only)
  it is still running at \<open>pc\<close> when the observed schedule ends.
\<close>

datatype outcome = Returned | Raised exn | Running pc

definition OK :: nat where
  "OK = 200"

definition NOT_FOUND :: nat where
  "NOT_FOUND = 404"

subsection \<open>The connection\<close>

definition writable :: "handler \<Rightarrow> bool" where
  "writable s = (case fault s of None \<Rightarrow> True | Some (n, e) \<Rightarrow> 0 < n)"

definition accept :: "chunk \<Rightarrow> handler \<Rightarrow> handler" where
  "accept c s =
     s\<lparr>wfile := wfile s @ [c],
       fault := (case fault s of None \<Rightarrow> None | Some (n, e) \<Rightarrow> Some (n - 1, e))\<rparr>"

definition wfile_write :: "chunk \<Rightarrow> handler \<Rightarrow> outcome \<times> handler" where
  "wfile_write c s =
     (case fault s of
        None \<Rightarrow> (Returned, accept c s)
      | Some (n, e) \<Rightarrow> if 0 < n then (Returned, accept c s) else (Raised e, s))"

text \<open>The socket writer is unbuffered (\<^verbatim>\<open>wbufsize = 0\<close>): \<^verbatim>\<open>flush\<close> has nothing to send.\<close>

definition wfile_flush :: "handler \<Rightarrow> outcome \<times> handler" where
  "wfile_flush s = (Returned, s)"

text \<open>Statements in sequence: the first one that does not return normally ends the run.\<close>

fun run_all :: "(handler \<Rightarrow> outcome \<times> handler) list \<Rightarrow> handler \<Rightarrow> outcome \<times> handler" where
  "run_all [] s = (Returned, s)"
| "run_all (f # fs) s =
     (case f s of (Returned, s') \<Rightarrow> run_all fs s' | (r, s') \<Rightarrow> (r, s'))"

definition lift :: "(handler \<Rightarrow> handler) \<Rightarrow> handler \<Rightarrow> outcome \<times> handler" where
  "lift f s = (Returned, f s)"

subsection \<open>The methods inherited from \<^verbatim>\<open>BaseHTTPRequestHandler\<close>\<close>

text \<open>
  The script overrides \<^verbatim>\<open>log_message\<close> to send the library's request log to \<^verbatim>\<open>log.info\<close>.
  The library methods are given by their effect on the header buffer, the connection and the
  log; the \<^verbatim>\<open>Server\<close>, \<^verbatim>\<open>Date\<close> and \<^verbatim>\<open>Content-Length\<close> lines and the reason phrases that the
  library computes by itself are left out.
\<close>

definition log_message :: "string \<Rightarrow> pyval list \<Rightarrow> handler \<Rightarrow> handler" where
  "log_message format args s = log_info format args s"

definition send_response :: "nat \<Rightarrow> handler \<Rightarrow> handler" where
  "send_response code s =
     (log_message ''\"%s\" %s %s'' [PyStr (requestline s), PyStr (str_nat code), PyStr ''-''] s)
       \<lparr>headers_buffer := headers_buffer s @ [StatusLine (protocol_version s) code]\<rparr>"

text \<open>
  The library's \<^verbatim>\<open>send_header\<close> appends \<^verbatim>\<open>"%s: %s\r\n" % (keyword, value)\<close> to the header
  buffer. The value is a string or \<open>None\<close>, and \<^verbatim>\<open>%s\<close> formats \<open>None\<close> as the text
  \<^verbatim>\<open>None\<close>.
\<close>

definition format_s :: "string option \<Rightarrow> string" where
  "format_s v = (case v of None \<Rightarrow> ''None'' | Some t \<Rightarrow> t)"

definition send_header :: "string \<Rightarrow> string option \<Rightarrow> handler \<Rightarrow> handler" where
  "send_header keyword v s =
     s\<lparr>headers_buffer := headers_buffer s @ [HeaderLine keyword (format_s v)]\<rparr>"

definition end_headers :: "handler \<Rightarrow> outcome \<times> handler" where
  "end_headers s =
     (case wfile_write (Head (headers_buffer s)) s of
        (Returned, s') \<Rightarrow> (Returned, s'\<lparr>headers_buffer := []\<rparr>)
      | (r, s') \<Rightarrow> (r, s'))"

definition send_error :: "nat \<Rightarrow> handler \<Rightarrow> outcome \<times> handler" where
  "send_error code =
     run_all
       [lift (log_message ''code %d, message %s'' [PyInt (int code)]),
        lift (send_response code),
        lift (send_header ''Connection'' (Some ''close'')),
        lift (send_header ''Content-Type'' (Some ''text/html;charset=utf-8'')),
        end_headers,
        wfile_write (ErrorPage code)]"

subsection \<open>\<^verbatim>\<open>handleRefresh\<close>: the event stream\<close>

text \<open>
  What the rest of the process does to a handler thread in the loop:
  \<^item> \<open>SIGHUP\<close>: the signal handler runs \<^verbatim>\<open>handleSighup\<close> (possible whenever this thread
    does not hold the lock: at the loop head and while parked in \<^verbatim>\<open>wait\<close>);
  \<^item> \<open>LockAcquired\<close>: the thread enters \<^verbatim>\<open>with refreshCond\<close> at the loop head;
  \<^item> \<open>WaitReturns b\<close>: the pending \<^verbatim>\<open>refreshCond.wait(timeout=60)\<close> returns \<open>b\<close>: \<open>True\<close>
    after a notification, \<open>False\<close> when the timeout elapsed.
\<close>

datatype event = SIGHUP | LockAcquired | WaitReturns bool

definition keepalive_msg :: "int \<Rightarrow> string" where
  "keepalive_msg lastMsgId = '': '' @ str_int lastMsgId @ ''\<newline>\<newline>''"

definition refresh_msg :: "int \<Rightarrow> string" where
  "refresh_msg lastMsgId = ''event: refresh\<newline>data: '' @ str_int lastMsgId @ ''\<newline>\<newline>''"

text \<open>\<^verbatim>\<open>self.wfile.write(msg.encode()); self.wfile.flush()\<close>\<close>

definition emit :: "string \<Rightarrow> handler \<Rightarrow> outcome \<times> handler" where
  "emit msg = run_all [wfile_write (Body msg), wfile_flush]"

text \<open>
  One event of the loop. At the loop head the thread reads \<^verbatim>\<open>lastMsgId = refreshId\<close> under the
  lock; the guard \<^verbatim>\<open>refreshId <= lastMsgId\<close> of the inner loop then holds, so the thread
  calls \<^verbatim>\<open>wait(timeout=60)\<close>. When the wait returns, \<^verbatim>\<open>isTimeout = not refreshCond.wait(...)\<close>:
  on a timeout the inner loop is left by \<^verbatim>\<open>break\<close>; otherwise the guard
  \<^verbatim>\<open>refreshId <= lastMsgId\<close> decides between waiting again and leaving the loop. After the
  inner loop the lock is released and the message is built from \<^verbatim>\<open>lastMsgId\<close>; the refresh
  message is logged before it is written. An event that cannot occur where the thread
  stands is passed over.
\<close>

definition refresh_step :: "pc \<Rightarrow> event \<Rightarrow> handler \<Rightarrow> (exn + pc) \<times> handler" where
  "refresh_step p ev s =
     (case ev of
        SIGHUP \<Rightarrow> (Inr p, handleSighup s)
      | LockAcquired \<Rightarrow>
          (case p of
             LoopHead \<Rightarrow> (let lastMsgId = refreshId s in (Inr (Waiting lastMsgId 60), s))
           | Waiting lastMsgId timeout \<Rightarrow> (Inr p, s))
      | WaitReturns notified \<Rightarrow>
          (case p of
             LoopHead \<Rightarrow> (Inr p, s)
           | Waiting lastMsgId timeout \<Rightarrow>
               (let isTimeout = \<not> notified in
                if \<not> isTimeout \<and> refreshId s \<le> lastMsgId then (Inr (Waiting lastMsgId 60), s)
                else
                  (let (msg, s1) =
                         (if isTimeout then (keepalive_msg lastMsgId, s)
                          else (refresh_msg lastMsgId,
                                log_info ''%r'' [PyStr (refresh_msg lastMsgId)] s))
                   in case emit msg s1 of
                        (Raised e, s2) \<Rightarrow> (Inl e, s2)
                      | (r, s2) \<Rightarrow> (Inr LoopHead, s2)))))"

fun refresh_loop :: "pc \<Rightarrow> event list \<Rightarrow> handler \<Rightarrow> outcome \<times> handler" where
  "refresh_loop p [] s = (Running p, s)"
| "refresh_loop p (ev # evs) s =
     (case refresh_step p ev s of
        (Inl e, s') \<Rightarrow> (Raised e, s')
      | (Inr p', s') \<Rightarrow> refresh_loop p' evs s')"

definition handleRefresh :: "event list \<Rightarrow> handler \<Rightarrow> outcome \<times> handler" where
  "handleRefresh sched =
     run_all
       [lift (\<lambda>s. s\<lparr>protocol_version := ''HTTP/1.1''\<rparr>),
        lift (send_response OK),
        lift (send_header ''Cache-Control'' (Some ''no-store'')),
        lift (send_header ''Content-Type'' (Some ''text/event-stream'')),
        end_headers,
        wfile_write (Body ''data:\<newline>\<newline>''),
        wfile_flush,
        refresh_loop LoopHead sched]"

subsection \<open>\<^verbatim>\<open>do_GET\<close>\<close>

text \<open>
  The file system as the handler meets it: \<open>fs p = None\<close> when \<^verbatim>\<open>open(p, 'rb')\<close> raises;
  \<open>fs p = Some (blocks, complete)\<close> when the file opens and \<^verbatim>\<open>shutil.copyfileobj\<close> reads
  \<open>blocks\<close> one after the other, and then either reaches the end of the file
  (\<open>complete\<close>) or gets an error from the read.
\<close>

type_synonym filesystem = "string \<Rightarrow> (string list \<times> bool) option"

fun copyfileobj :: "string list \<Rightarrow> bool \<Rightarrow> handler \<Rightarrow> outcome \<times> handler" where
  "copyfileobj [] complete s = (if complete then (Returned, s) else (Raised OSError, s))"
| "copyfileobj (b # bs) complete s =
     (case wfile_write (Body b) s of
        (Returned, s') \<Rightarrow> copyfileobj bs complete s'
      | (r, s') \<Rightarrow> (r, s'))"

definition open_and_copy :: "filesystem \<Rightarrow> handler \<Rightarrow> outcome \<times> handler" where
  "open_and_copy fs s =
     (case FILE_PATH s of
        None \<Rightarrow> (Raised TypeError, s)
      | Some p \<Rightarrow>
          (case fs p of
             None \<Rightarrow> (Raised OSError, s)
           | Some (blocks, complete) \<Rightarrow> copyfileobj blocks complete s))"

text \<open>The body of the \<^verbatim>\<open>try\<close> block.\<close>

definition do_GET_body :: "filesystem \<Rightarrow> event list \<Rightarrow> handler \<Rightarrow> outcome \<times> handler" where
  "do_GET_body fs sched s =
     (if path s = ''/refresh'' then handleRefresh sched s
      else if path s = ''/'' then
        run_all
          [lift (\<lambda>s. s\<lparr>protocol_version := ''HTTP/1.1''\<rparr>),
           lift (send_response OK),
           lift (send_header ''Content-Type'' (Some ''text/html'')),
           end_headers,
           wfile_write (Body indexData)] s
      else if path s = ''/file'' then
        run_all
          [lift (\<lambda>s. s\<lparr>protocol_version := ''HTTP/1.1''\<rparr>),
           lift (send_response OK),
           lift (send_header ''Cache-Control'' (Some ''no-store'')),
           lift (\<lambda>s. send_header ''Content-Type'' (FILE_MIMETYPE s) s),
           end_headers,
           open_and_copy fs] s
      else send_error NOT_FOUND s)"

text \<open>\<^verbatim>\<open>except BrokenPipeError: return\<close>; every other exception leaves \<^verbatim>\<open>do_GET\<close>.\<close>

definition do_GET :: "filesystem \<Rightarrow> event list \<Rightarrow> handler \<Rightarrow> outcome \<times> handler" where
  "do_GET fs sched s =
     (case do_GET_body fs sched s of
        (Raised BrokenPipeError, s') \<Rightarrow> (Returned, s')
      | (r, s') \<Rightarrow> (r, s'))"

text \<open>A handler for a new request on a connection, reading the module state \<open>m\<close>.\<close>

definition new_handler :: "module \<Rightarrow> string \<Rightarrow> (nat \<times> exn) option \<Rightarrow> handler" where
  "new_handler m p f =
     \<lparr>refreshId = refreshId m, log = log m, FILE_PATH = FILE_PATH m,
      FILE_MIMETYPE = FILE_MIMETYPE m, path = p, requestline = ''GET '' @ p @ '' HTTP/1.1'',
      protocol_version = ''HTTP/1.0'', headers_buffer = [], wfile = [], fault = f\<rparr>"

section \<open>Start-up\<close>

text \<open>
  \<^verbatim>\<open>main\<close> after argument parsing. \<open>guess_type\<close> is the first component of what
  \<^verbatim>\<open>mimetypes.guess_type\<close> returns, and \<open>bound\<close> says whether creating the server on the
  port succeeds. The result is \<open>None\<close> when the process reaches \<^verbatim>\<open>serve_forever\<close>.
  Installing \<^verbatim>\<open>handleSighup\<close> for SIGHUP changes none of the module state.
\<close>

record args =
  filePath :: string
  mime :: "string option"
  port :: int

text \<open>Python's \<^verbatim>\<open>not args.mime\<close>: true for \<open>None\<close> and for the empty string.\<close>

definition not_mime :: "string option \<Rightarrow> bool" where
  "not_mime v = (case v of None \<Rightarrow> True | Some t \<Rightarrow> t = [])"

definition main :: "(string \<Rightarrow> string option) \<Rightarrow> bool \<Rightarrow> args \<Rightarrow> module \<Rightarrow> exn option \<times> module" where
  "main guess_type bound a m =
     (let (mime', m1) =
            (if not_mime (mime a)
             then (guess_type (filePath a),
                   log_info ''MIME type: guessed %r from filePath: %r''
                     [of_optional (guess_type (filePath a)), PyStr (filePath a)] m)
             else (mime a, m));
          m2 = m1\<lparr>FILE_PATH := Some (filePath a), FILE_MIMETYPE := mime'\<rparr>
      in if bound then (None, log_info ''Serving on port %d'' [PyInt (port a)] m2)
         else (Some OSError, m2))"

section \<open>The generation counter\<close>

lemma refreshId_handleSighup:
  "refreshId (handleSighup m) = (refreshId m + 1) mod 65536"
  by (simp add: handleSighup_def REFRESH_ID_MAX_def)

lemma refreshId_triggers:
  "refreshId ((handleSighup ^^ n) module_init) = int n mod 65536"
proof (induction n)
  case 0
  show ?case by (simp add: module_init_def)
next
  case (Suc n)
  have "refreshId ((handleSighup ^^ Suc n) module_init) = (int n mod 65536 + 1) mod 65536"
    using Suc.IH by (simp add: refreshId_handleSighup)
  also have "\<dots> = int (Suc n) mod 65536"
    by (simp add: mod_add_left_eq add.commute [of 1])
  finally show ?case .
qed

text \<open>
  C3. The generation counter starts at 0; every trigger sets it to
  \<open>(previous + 1) mod 65536\<close>; after any number of triggers it lies in \<open>[0, 65536)\<close>, and
  each trigger moves it to the successor modulo 65536, which is never the value it had.
\<close>

theorem generation_counter_bounded_and_advancing:
  "refreshId module_init = 0
   \<and> refreshId (handleSighup m) = (refreshId m + 1) mod 65536
   \<and> 0 \<le> refreshId ((handleSighup ^^ n) module_init)
   \<and> refreshId ((handleSighup ^^ n) module_init) < 65536
   \<and> refreshId ((handleSighup ^^ Suc n) module_init)
       = (refreshId ((handleSighup ^^ n) module_init) + 1) mod 65536
   \<and> refreshId ((handleSighup ^^ Suc n) module_init)
       \<noteq> refreshId ((handleSighup ^^ n) module_init)"
proof -
  let ?r = "refreshId ((handleSighup ^^ n) module_init)"
  have r: "?r = int n mod 65536" by (rule refreshId_triggers)
  have lo: "0 \<le> ?r" and hi: "?r < 65536" unfolding r by simp_all
  have step: "refreshId ((handleSighup ^^ Suc n) module_init) = (?r + 1) mod 65536"
    by (simp add: refreshId_handleSighup)
  have ne: "(?r + 1) mod 65536 \<noteq> ?r"
  proof (cases "?r = 65535")
    case True
    then show ?thesis by simp
  next
    case False
    with lo hi have "?r + 1 < 65536" "0 \<le> ?r + 1" by simp_all
    then have "(?r + 1) mod 65536 = ?r + 1" by simp
    then show ?thesis by simp
  qed
  show ?thesis
    using lo hi step ne by (simp add: module_init_def refreshId_handleSighup)
qed

section \<open>Evaluation and the connection\<close>

lemma str_nat_small: "n < 10 \<Longrightarrow> str_nat n = [digit n]"
  by (simp add: str_nat.simps)

lemma str_nat_big: "\<not> n < 10 \<Longrightarrow> str_nat n = str_nat (n div 10) @ [digit (n mod 10)]"
  by (subst str_nat.simps) simp

lemmas str_eval = str_int_def str_nat_small str_nat_big digit_def

lemma wfile_write_ok: "writable s \<Longrightarrow> wfile_write c s = (Returned, accept c s)"
  by (auto simp: writable_def wfile_write_def split: option.splits)

lemma wfile_write_fails: "fault s = Some (0, e) \<Longrightarrow> wfile_write c s = (Raised e, s)"
  by (simp add: wfile_write_def)

lemma emit_ok: "writable s \<Longrightarrow> emit msg s = (Returned, accept (Body msg) s)"
  by (simp add: emit_def wfile_write_ok wfile_flush_def)

lemma emit_fails: "fault s = Some (0, e) \<Longrightarrow> emit msg s = (Raised e, s)"
  by (simp add: emit_def wfile_write_fails)

lemma writable_log_info [simp]: "writable (log_info f a s) = writable s"
  by (simp add: writable_def log_info_def)

lemma wfile_write_grows: "\<exists>ws. wfile (snd (wfile_write c s)) = wfile s @ ws"
  by (auto simp: wfile_write_def accept_def split: option.splits)

lemmas http_eval = lift_def send_response_def send_header_def format_s_def end_headers_def wfile_write_def
  accept_def wfile_flush_def log_message_def log_info_def OK_def NOT_FOUND_def

lemmas handler_eval = new_handler_def module_init_def handleRefresh_def lift_def send_response_def
  send_header_def end_headers_def wfile_write_def accept_def wfile_flush_def refresh_step_def
  handleSighup_def REFRESH_ID_MAX_def log_message_def log_info_def emit_def keepalive_msg_def
  refresh_msg_def OK_def NOT_FOUND_def send_error_def do_GET_def do_GET_body_def open_and_copy_def

lemma run_all_end:
  "(case x of (Returned, s') \<Rightarrow> run_all [] s' | (Raised e, s') \<Rightarrow> (Raised e, s')
    | (Running p, s') \<Rightarrow> (Running p, s')) = x"
proof -
  obtain r s' where "x = (r, s')" by (cases x)
  then show ?thesis by (cases r) simp_all
qed

section \<open>The event-stream loop\<close>

lemma refresh_step_SIGHUP: "refresh_step p SIGHUP s = (Inr p, handleSighup s)"
  by (simp add: refresh_step_def)

lemma refresh_step_enter: "refresh_step LoopHead LockAcquired s = (Inr (Waiting (refreshId s) 60), s)"
  by (simp add: refresh_step_def)

lemma refresh_step_again:
  "refreshId s \<le> lastMsgId \<Longrightarrow>
   refresh_step (Waiting lastMsgId t) (WaitReturns True) s = (Inr (Waiting lastMsgId 60), s)"
  by (simp add: refresh_step_def)

lemma refresh_step_advanced:
  "lastMsgId < refreshId s \<Longrightarrow> writable s \<Longrightarrow>
   refresh_step (Waiting lastMsgId t) (WaitReturns True) s =
     (Inr LoopHead,
      accept (Body (refresh_msg lastMsgId)) (log_info ''%r'' [PyStr (refresh_msg lastMsgId)] s))"
  by (simp add: refresh_step_def emit_ok)

lemma refresh_step_timeout:
  "writable s \<Longrightarrow>
   refresh_step (Waiting lastMsgId t) (WaitReturns False) s =
     (Inr LoopHead, accept (Body (keepalive_msg lastMsgId)) s)"
  by (simp add: refresh_step_def emit_ok)

lemma refresh_step_grows: "\<exists>ws. wfile (snd (refresh_step p ev s)) = wfile s @ ws"
  by (auto simp: refresh_step_def handleSighup_def emit_def wfile_write_def accept_def
      wfile_flush_def log_info_def Let_def split: event.splits pc.splits option.splits)

lemma refresh_loop_grows: "\<exists>ws. wfile (snd (refresh_loop p evs s)) = wfile s @ ws"
proof (induction evs arbitrary: p s)
  case Nil
  show ?case by simp
next
  case (Cons ev evs)
  obtain r s' where st: "refresh_step p ev s = (r, s')" by (cases "refresh_step p ev s")
  from refresh_step_grows [of p ev s] st obtain ws where ws: "wfile s' = wfile s @ ws" by auto
  show ?case
  proof (cases r)
    case (Inl e)
    with st ws show ?thesis by simp
  next
    case (Inr p')
    from Cons.IH [of p' s'] obtain ws' where "wfile (snd (refresh_loop p' evs s')) = wfile s' @ ws'"
      by blast
    with st ws Inr show ?thesis by simp
  qed
qed

text \<open>
  C1. The claim: for every baseline \<open>g\<close>, the wait counts the state as changed exactly
  when the current generation differs from \<open>g\<close>, values smaller than \<open>g\<close> after
  wraparound included. The inner loop's guard is \<^verbatim>\<open>refreshId <= lastMsgId\<close>, so this fails
  at the wraparound: a handler whose baseline is 65535 and that is notified after the
  trigger that takes the counter to 0 goes back to waiting, with nothing written and
  nothing logged.
\<close>

theorem wraparound_advance_not_seen:
  "refresh_loop LoopHead [LockAcquired, SIGHUP, WaitReturns True] (s\<lparr>refreshId := 65535\<rparr>)
     = (Running (Waiting 65535 60), s\<lparr>refreshId := 0\<rparr>)"
  by (simp add: refresh_step_enter refresh_step_SIGHUP refresh_step_again handleSighup_def
      REFRESH_ID_MAX_def)

text \<open>
  C2, as stated: the refresh frame's payload is the new (post-advance) generation. On a
  fresh connection with the counter at 0, one trigger takes the counter to 1, and the frame
  written carries 0.
\<close>

theorem refresh_payload_counterexample:
  "wfile (snd (refresh_loop LoopHead [LockAcquired, SIGHUP, WaitReturns True]
                 (new_handler module_init ''/refresh'' None)))
     = [Body ''event: refresh\<newline>data: 0\<newline>\<newline>'']
   \<and> refreshId (snd (refresh_loop LoopHead [LockAcquired, SIGHUP, WaitReturns True]
                 (new_handler module_init ''/refresh'' None))) = 1"
  by (simp add: handler_eval str_eval)

text \<open>
  C2, amended. When a wait ends because the generation advanced (the wait returned
  notified and \<open>lastMsgId < refreshId\<close>), the handler logs and then writes exactly one
  \<^verbatim>\<open>refresh\<close> event frame, whose data payload is the baseline \<open>lastMsgId\<close> of the
  iteration as decimal text; the next iteration, entered before any further trigger, takes
  the new generation as its baseline.
\<close>

theorem refresh_event_carries_baseline:
  assumes "lastMsgId < refreshId s" and "writable s"
  shows "refresh_step (Waiting lastMsgId t) (WaitReturns True) s =
           (Inr LoopHead,
            accept (Body (refresh_msg lastMsgId))
              (log_info ''%r'' [PyStr (refresh_msg lastMsgId)] s))
         \<and> wfile (snd (refresh_step (Waiting lastMsgId t) (WaitReturns True) s))
             = wfile s @ [Body (''event: refresh\<newline>data: '' @ str_int lastMsgId @ ''\<newline>\<newline>'')]
         \<and> refresh_loop (Waiting lastMsgId t) [WaitReturns True, LockAcquired] s
             = (Running (Waiting (refreshId s) 60),
                accept (Body (refresh_msg lastMsgId))
                  (log_info ''%r'' [PyStr (refresh_msg lastMsgId)] s))"
proof -
  let ?s' = "accept (Body (refresh_msg lastMsgId)) (log_info ''%r'' [PyStr (refresh_msg lastMsgId)] s)"
  have step: "refresh_step (Waiting lastMsgId t) (WaitReturns True) s = (Inr LoopHead, ?s')"
    using assms by (rule refresh_step_advanced)
  have wire: "wfile ?s' = wfile s @ [Body (''event: refresh\<newline>data: '' @ str_int lastMsgId @ ''\<newline>\<newline>'')]"
    by (simp add: accept_def log_info_def refresh_msg_def)
  have gen: "refreshId ?s' = refreshId s"
    by (simp add: accept_def log_info_def)
  have loop: "refresh_loop (Waiting lastMsgId t) [WaitReturns True, LockAcquired] s
                = (Running (Waiting (refreshId s) 60), ?s')"
    by (simp add: step refresh_step_enter gen)
  show ?thesis
    using step wire loop by simp
qed

text \<open>
  An instance: baseline 7, counter at 8.
\<close>

theorem refresh_event_carries_baseline_witness:
  "refresh_step (Waiting 7 60) (WaitReturns True)
       ((new_handler module_init ''/refresh'' None)\<lparr>refreshId := 8\<rparr>)
     = (Inr LoopHead,
        (new_handler module_init ''/refresh'' None)
          \<lparr>refreshId := 8,
           log := [(INFO, ''%r'', [PyStr ''event: refresh\<newline>data: 7\<newline>\<newline>''])],
           wfile := [Body ''event: refresh\<newline>data: 7\<newline>\<newline>'']\<rparr>)"
proof -
  let ?s = "(new_handler module_init ''/refresh'' None)\<lparr>refreshId := 8\<rparr>"
  have a: "7 < refreshId ?s" by (simp add: new_handler_def)
  have b: "writable ?s" by (simp add: writable_def new_handler_def)
  have "refresh_step (Waiting 7 60) (WaitReturns True) ?s =
          (Inr LoopHead, accept (Body (refresh_msg 7)) (log_info ''%r'' [PyStr (refresh_msg 7)] ?s))"
    using refresh_event_carries_baseline [OF a b, of 60] by (rule conjunct1)
  then show ?thesis
    by (simp add: accept_def log_info_def refresh_msg_def str_eval new_handler_def module_init_def)
qed

text \<open>
  C4. Each iteration of the loop captures \<open>lastMsgId = refreshId\<close> and waits with a
  timeout of 60 seconds. When no trigger arrives and the wait returns timed out, the loop
  writes one keepalive frame, the comment line \<^verbatim>\<open>: <lastMsgId>\<close> followed by a blank line,
  logs nothing, leaves the counter alone, and goes on from the head of the loop with the
  rest of the schedule. On a connection that is just opened, \<^verbatim>\<open>handleRefresh\<close> so writes
  the head, the initial frame and the keepalive frame, and is still running.
\<close>

theorem timeout_emits_keepalive:
  assumes "writable s"
  shows "refresh_loop LoopHead [LockAcquired] s = (Running (Waiting (refreshId s) 60), s)
         \<and> refresh_loop LoopHead (LockAcquired # WaitReturns False # evs) s
             = refresh_loop LoopHead evs (accept (Body (keepalive_msg (refreshId s))) s)
         \<and> refresh_loop (Waiting lastMsgId t) (WaitReturns False # evs) s
             = refresh_loop LoopHead evs (accept (Body (keepalive_msg lastMsgId)) s)
         \<and> refresh_step LoopHead LockAcquired s = (Inr (Waiting (refreshId s) 60), s)
         \<and> refresh_step (Waiting lastMsgId t) (WaitReturns False) s
             = (Inr LoopHead, accept (Body (keepalive_msg lastMsgId)) s)
         \<and> wfile (accept (Body (keepalive_msg lastMsgId)) s)
             = wfile s @ [Body ('': '' @ str_int lastMsgId @ ''\<newline>\<newline>'')]
         \<and> log (accept (Body (keepalive_msg lastMsgId)) s) = log s
         \<and> refreshId (accept (Body (keepalive_msg lastMsgId)) s) = refreshId s
         \<and> (fault s = None \<longrightarrow>
              fst (handleRefresh [LockAcquired, WaitReturns False] s) = Running LoopHead
              \<and> wfile (snd (handleRefresh [LockAcquired, WaitReturns False] s))
                  = wfile s @
                    [Head (headers_buffer s @
                           [StatusLine ''HTTP/1.1'' 200, HeaderLine ''Cache-Control'' ''no-store'',
                            HeaderLine ''Content-Type'' ''text/event-stream'']),
                     Body ''data:\<newline>\<newline>'',
                     Body ('': '' @ str_int (refreshId s) @ ''\<newline>\<newline>'')])"
proof -
  have steps: "refresh_step LoopHead LockAcquired s = (Inr (Waiting (refreshId s) 60), s)"
    "refresh_step (Waiting lastMsgId t) (WaitReturns False) s
       = (Inr LoopHead, accept (Body (keepalive_msg lastMsgId)) s)"
    "refresh_step (Waiting (refreshId s) 60) (WaitReturns False) s
       = (Inr LoopHead, accept (Body (keepalive_msg (refreshId s))) s)"
    using assms by (simp_all add: refresh_step_enter refresh_step_timeout)
  have loops: "refresh_loop LoopHead [LockAcquired] s = (Running (Waiting (refreshId s) 60), s)"
    "refresh_loop LoopHead (LockAcquired # WaitReturns False # evs) s
       = refresh_loop LoopHead evs (accept (Body (keepalive_msg (refreshId s))) s)"
    "refresh_loop (Waiting lastMsgId t) (WaitReturns False # evs) s
       = refresh_loop LoopHead evs (accept (Body (keepalive_msg lastMsgId)) s)"
    by (simp_all add: steps)
  have frame: "wfile (accept (Body (keepalive_msg lastMsgId)) s)
             = wfile s @ [Body ('': '' @ str_int lastMsgId @ ''\<newline>\<newline>'')]"
    "log (accept (Body (keepalive_msg lastMsgId)) s) = log s"
    "refreshId (accept (Body (keepalive_msg lastMsgId)) s) = refreshId s"
    by (simp_all add: accept_def keepalive_msg_def)
  have stream: "fault s = None \<longrightarrow>
              fst (handleRefresh [LockAcquired, WaitReturns False] s) = Running LoopHead
              \<and> wfile (snd (handleRefresh [LockAcquired, WaitReturns False] s))
                  = wfile s @
                    [Head (headers_buffer s @
                           [StatusLine ''HTTP/1.1'' 200, HeaderLine ''Cache-Control'' ''no-store'',
                            HeaderLine ''Content-Type'' ''text/event-stream'']),
                     Body ''data:\<newline>\<newline>'',
                     Body ('': '' @ str_int (refreshId s) @ ''\<newline>\<newline>'')]"
    by (simp add: handleRefresh_def http_eval refresh_step_def emit_def keepalive_msg_def)
  from steps(1,2) loops frame stream show ?thesis
    by (intro conjI)
qed

text \<open>
  An instance: a connection just opened while the counter is at 41, and one timed-out wait.
\<close>

theorem timeout_emits_keepalive_witness:
  "refresh_loop LoopHead [LockAcquired, WaitReturns False]
       ((new_handler module_init ''/refresh'' None)\<lparr>refreshId := 41\<rparr>)
     = (Running LoopHead,
        (new_handler module_init ''/refresh'' None)
          \<lparr>refreshId := 41, wfile := [Body '': 41\<newline>\<newline>'']\<rparr>)
   \<and> fst (handleRefresh [LockAcquired, WaitReturns False]
            ((new_handler module_init ''/refresh'' None)\<lparr>refreshId := 41\<rparr>))
     = Running LoopHead
   \<and> wfile (snd (handleRefresh [LockAcquired, WaitReturns False]
                   ((new_handler module_init ''/refresh'' None)\<lparr>refreshId := 41\<rparr>)))
     = [Head [StatusLine ''HTTP/1.1'' 200, HeaderLine ''Cache-Control'' ''no-store'',
              HeaderLine ''Content-Type'' ''text/event-stream''],
        Body ''data:\<newline>\<newline>'', Body '': 41\<newline>\<newline>'']"
proof -
  let ?s = "(new_handler module_init ''/refresh'' None)\<lparr>refreshId := 41\<rparr>"
  have b: "writable ?s" by (simp add: writable_def new_handler_def)
  have f: "fault ?s = None" by (simp add: new_handler_def)
  have r: "refreshId ?s = 41" by simp
  have w: "wfile ?s = []" and h: "headers_buffer ?s = []" by (simp_all add: new_handler_def)
  have e: "accept (Body (keepalive_msg 41)) ?s
             = (new_handler module_init ''/refresh'' None)
                 \<lparr>refreshId := 41, wfile := [Body '': 41\<newline>\<newline>'']\<rparr>"
    by (simp add: accept_def keepalive_msg_def str_eval new_handler_def module_init_def)
  have d: "str_int 41 = ''41''" by (simp add: str_eval)
  note T = timeout_emits_keepalive [OF b, of "[]" 41 60]
  have "refresh_loop LoopHead [LockAcquired, WaitReturns False] ?s
          = refresh_loop LoopHead [] (accept (Body (keepalive_msg (refreshId ?s))) ?s)"
    using T by (elim conjE)
  then have loop: "refresh_loop LoopHead [LockAcquired, WaitReturns False] ?s
          = (Running LoopHead,
             (new_handler module_init ''/refresh'' None)
               \<lparr>refreshId := 41, wfile := [Body '': 41\<newline>\<newline>'']\<rparr>)"
    by (simp only: r e refresh_loop.simps)
  have stream: "fst (handleRefresh [LockAcquired, WaitReturns False] ?s) = Running LoopHead
     \<and> wfile (snd (handleRefresh [LockAcquired, WaitReturns False] ?s))
         = wfile ?s @
           [Head (headers_buffer ?s @
                  [StatusLine ''HTTP/1.1'' 200, HeaderLine ''Cache-Control'' ''no-store'',
                   HeaderLine ''Content-Type'' ''text/event-stream'']),
            Body ''data:\<newline>\<newline>'',
            Body ('': '' @ str_int (refreshId ?s) @ ''\<newline>\<newline>'')]"
    using T f by (elim conjE) (erule impE, assumption+)
  from loop stream show ?thesis
    by (simp only: r w h d append_Nil append_Cons simp_thms)
qed

text \<open>
  C9, as stated: every frame of the event stream is also logged. On a fresh connection
  followed by one timed-out wait, the initial frame and a keepalive frame are written, and
  the log holds the request line only.
\<close>

theorem frames_logged_counterexample:
  "wfile (snd (handleRefresh [LockAcquired, WaitReturns False]
                 (new_handler module_init ''/refresh'' None)))
     = [Head [StatusLine ''HTTP/1.1'' 200, HeaderLine ''Cache-Control'' ''no-store'',
              HeaderLine ''Content-Type'' ''text/event-stream''],
        Body ''data:\<newline>\<newline>'', Body '': 0\<newline>\<newline>'']
   \<and> log (snd (handleRefresh [LockAcquired, WaitReturns False]
                 (new_handler module_init ''/refresh'' None)))
     = [(INFO, ''\"%s\" %s %s'', [PyStr ''GET /refresh HTTP/1.1'', PyStr ''200'', PyStr ''-''])]"
  by (simp add: handleRefresh_def new_handler_def module_init_def http_eval refresh_step_def
      emit_def keepalive_msg_def str_eval)

lemma log_emit: "log (snd (emit msg s)) = log s"
  by (auto simp: emit_def wfile_write_def accept_def wfile_flush_def split: option.splits)

lemma log_refresh_step_advanced:
  assumes "lastMsgId < refreshId s"
  shows "log (snd (refresh_step (Waiting lastMsgId t) (WaitReturns True) s))
           = log s @ [(INFO, ''%r'', [PyStr (refresh_msg lastMsgId)])]"
proof -
  let ?s1 = "log_info ''%r'' [PyStr (refresh_msg lastMsgId)] s"
  obtain r s2 where e: "emit (refresh_msg lastMsgId) ?s1 = (r, s2)"
    by (cases "emit (refresh_msg lastMsgId) ?s1")
  have "log s2 = log ?s1" using log_emit [of "refresh_msg lastMsgId" ?s1] e by simp
  then have l: "log s2 = log s @ [(INFO, ''%r'', [PyStr (refresh_msg lastMsgId)])]"
    by (simp add: log_info_def)
  show ?thesis
    using assms e l by (cases r) (simp_all add: refresh_step_def)
qed

lemma log_refresh_step_timeout:
  "log (snd (refresh_step (Waiting lastMsgId t) (WaitReturns False) s)) = log s"
proof -
  obtain r s2 where e: "emit (keepalive_msg lastMsgId) s = (r, s2)"
    by (cases "emit (keepalive_msg lastMsgId) s")
  have "log s2 = log s" using log_emit [of "keepalive_msg lastMsgId" s] e by simp
  then show ?thesis
    using e by (cases r) (simp_all add: refresh_step_def)
qed

lemma log_handleRefresh_connect:
  "log (snd (handleRefresh [] s))
     = log s @ [(INFO, ''\"%s\" %s %s'', [PyStr (requestline s), PyStr ''200'', PyStr ''-''])]"
  by (auto simp: handleRefresh_def http_eval str_eval split: option.splits)

text \<open>
  C9, amended. Every \<^verbatim>\<open>refresh\<close> event frame is recorded in the log at level
  \<open>INFO\<close> (before it is written); a keepalive frame adds nothing to the log, and
  connecting adds only the request line that \<^verbatim>\<open>send_response\<close> logs, not the initial
  frame.
\<close>

theorem only_refresh_events_logged:
  "(lastMsgId < refreshId s \<longrightarrow>
      log (snd (refresh_step (Waiting lastMsgId t) (WaitReturns True) s))
        = log s @ [(INFO, ''%r'', [PyStr (refresh_msg lastMsgId)])])
   \<and> log (snd (refresh_step (Waiting lastMsgId t) (WaitReturns False) s)) = log s
   \<and> log (snd (handleRefresh [] s))
        = log s @ [(INFO, ''\"%s\" %s %s'', [PyStr (requestline s), PyStr ''200'', PyStr ''-''])]"
  using log_refresh_step_advanced [of lastMsgId s t] log_refresh_step_timeout [of lastMsgId t s]
    log_handleRefresh_connect [of s]
  by simp

text \<open>
  An instance: baseline 3, counter at 4.
\<close>

theorem only_refresh_events_logged_witness:
  "(3 :: int) < refreshId ((new_handler module_init ''/refresh'' None)\<lparr>refreshId := 4\<rparr>)
   \<and> log (snd (refresh_step (Waiting 3 60) (WaitReturns True)
                  ((new_handler module_init ''/refresh'' None)\<lparr>refreshId := 4\<rparr>)))
       = [(INFO, ''%r'', [PyStr ''event: refresh\<newline>data: 3\<newline>\<newline>''])]"
proof -
  let ?s = "(new_handler module_init ''/refresh'' None)\<lparr>refreshId := 4\<rparr>"
  have a: "3 < refreshId ?s" by simp
  have l: "log ?s = []" by (simp add: new_handler_def module_init_def)
  show ?thesis
    using only_refresh_events_logged [of 3 ?s 60] a l
    by (simp add: refresh_msg_def str_eval)
qed

section \<open>Requests\<close>

lemma copyfileobj_no_fault:
  "fault s = None \<Longrightarrow>
   copyfileobj bs c s
     = (if c then Returned else Raised OSError, s\<lparr>wfile := wfile s @ map Body bs\<rparr>)"
proof (induction bs arbitrary: s)
  case Nil
  then show ?case by simp
next
  case (Cons b bs)
  have w: "wfile_write (Body b) s = (Returned, accept (Body b) s)"
    using Cons.prems by (simp add: wfile_write_def)
  have f: "fault (accept (Body b) s) = None"
    using Cons.prems by (simp add: accept_def)
  show ?case
    using Cons.IH [OF f] Cons.prems by (simp add: w accept_def)
qed

lemma copyfileobj_grows: "\<exists>ws. wfile (snd (copyfileobj bs c s)) = wfile s @ ws"
proof (induction bs arbitrary: s)
  case Nil
  show ?case by simp
next
  case (Cons b bs)
  obtain r s' where st: "wfile_write (Body b) s = (r, s')" by (cases "wfile_write (Body b) s")
  from wfile_write_grows [of "Body b" s] st obtain ws where ws: "wfile s' = wfile s @ ws" by auto
  from Cons.IH [of s'] obtain ws' where "wfile (snd (copyfileobj bs c s')) = wfile s' @ ws'"
    by blast
  with st ws show ?case by (cases r) auto
qed

lemma open_and_copy_grows: "\<exists>ws. wfile (snd (open_and_copy fs s)) = wfile s @ ws"
  using copyfileobj_grows [of _ _ s]
  by (auto simp: open_and_copy_def split: option.splits)

lemma snd_do_GET: "snd (do_GET fs sched s) = snd (do_GET_body fs sched s)"
proof -
  obtain r s' where b: "do_GET_body fs sched s = (r, s')" by (cases "do_GET_body fs sched s")
  show ?thesis
  proof (cases r)
    case (Raised e)
    with b show ?thesis by (cases e) (simp_all add: do_GET_def)
  qed (simp_all add: do_GET_def b)
qed








lemma do_GET_file_no_fault:
  assumes "path s = ''/file''" and "FILE_PATH s = Some p" and "fault s = None"
  shows "fst (do_GET fs sched s)
           = (case fs p of None \<Rightarrow> Raised OSError
              | Some (bs, c) \<Rightarrow> if c then Returned else Raised OSError)"
    and "wfile (snd (do_GET fs sched s))
           = wfile s @
             Head (headers_buffer s @
                   [StatusLine ''HTTP/1.1'' 200, HeaderLine ''Cache-Control'' ''no-store'',
                    HeaderLine ''Content-Type'' (format_s (FILE_MIMETYPE s))])
             # map Body (case fs p of None \<Rightarrow> [] | Some (bs, c) \<Rightarrow> bs)"
  using assms
  by (auto simp add: do_GET_def do_GET_body_def open_and_copy_def http_eval copyfileobj_no_fault
      split: option.splits)

lemma file_response_head:
  assumes "path s = ''/file''" and "fault s = None"
  shows "\<exists>ws. wfile (snd (do_GET fs sched s))
           = wfile s @
             Head (headers_buffer s @
                   [StatusLine ''HTTP/1.1'' 200, HeaderLine ''Cache-Control'' ''no-store'',
                    HeaderLine ''Content-Type'' (format_s (FILE_MIMETYPE s))]) # ws"
proof -
  let ?hd = "Head (headers_buffer s @
                   [StatusLine ''HTTP/1.1'' 200, HeaderLine ''Cache-Control'' ''no-store'',
                    HeaderLine ''Content-Type'' (format_s (FILE_MIMETYPE s))])"
  obtain s1 where s1: "do_GET_body fs sched s = open_and_copy fs s1" "wfile s1 = wfile s @ [?hd]"
    using assms by (simp add: do_GET_body_def http_eval run_all_end)
  from open_and_copy_grows [of fs s1] obtain ws
    where "wfile (snd (open_and_copy fs s1)) = wfile s1 @ ws" by blast
  with s1 have "wfile (snd (do_GET fs sched s)) = wfile s @ ?hd # ws"
    by (simp add: snd_do_GET)
  then show ?thesis by blast
qed

lemma refresh_response_head:
  assumes "path s = ''/refresh''" and "fault s = None"
  shows "\<exists>ws. wfile (snd (do_GET fs sched s))
           = wfile s @
             Head (headers_buffer s @
                   [StatusLine ''HTTP/1.1'' 200, HeaderLine ''Cache-Control'' ''no-store'',
                    HeaderLine ''Content-Type'' ''text/event-stream'']) # ws"
proof -
  let ?hd = "Head (headers_buffer s @
                   [StatusLine ''HTTP/1.1'' 200, HeaderLine ''Cache-Control'' ''no-store'',
                    HeaderLine ''Content-Type'' ''text/event-stream''])"
  obtain s1 where s1: "do_GET_body fs sched s = refresh_loop LoopHead sched s1"
      "wfile s1 = wfile s @ [?hd, Body ''data:\<newline>\<newline>'']"
    using assms by (simp add: do_GET_body_def handleRefresh_def http_eval run_all_end)
  from refresh_loop_grows [of LoopHead sched s1] obtain ws
    where "wfile (snd (refresh_loop LoopHead sched s1)) = wfile s1 @ ws" by blast
  with s1 have "wfile (snd (do_GET fs sched s)) = wfile s @ ?hd # Body ''data:\<newline>\<newline>'' # ws"
    by (simp add: snd_do_GET)
  then show ?thesis by blast
qed

text \<open>
  C6, as stated: a failure to open the served file reaches the client as a server-error
  response. With no file at \<^verbatim>\<open>FILE_PATH\<close>, the status line 200 and the headers are all
  the client is sent, and \<^verbatim>\<open>OSError\<close> leaves \<^verbatim>\<open>do_GET\<close>.
\<close>

theorem file_open_failure_counterexample:
  "fst (do_GET (map_of []) []
          (new_handler (module_init\<lparr>FILE_PATH := Some ''report.pdf''\<rparr>) ''/file'' None))
     = Raised OSError
   \<and> wfile (snd (do_GET (map_of []) []
          (new_handler (module_init\<lparr>FILE_PATH := Some ''report.pdf''\<rparr>) ''/file'' None)))
     = [Head [StatusLine ''HTTP/1.1'' 200, HeaderLine ''Cache-Control'' ''no-store'',
              HeaderLine ''Content-Type'' ''None'']]"
  by (simp add: do_GET_def do_GET_body_def open_and_copy_def new_handler_def module_init_def
      http_eval)

text \<open>
  C6, amended. If opening or reading the served file fails during \<^verbatim>\<open>GET /file\<close>, the
  exception leaves \<^verbatim>\<open>do_GET\<close> uncaught; by then the client has been sent status 200
  with the headers, followed by the blocks read before the failure, and nothing else: no
  error response is written, and the file is not read again.
\<close>

theorem file_failure_propagates:
  assumes "path s = ''/file''" and "FILE_PATH s = Some p" and "fault s = None"
    and "fs p = None \<and> blocks = [] \<or> fs p = Some (blocks, False)"
  shows "fst (do_GET fs sched s) = Raised OSError
         \<and> wfile (snd (do_GET fs sched s))
             = wfile s @
               Head (headers_buffer s @
                     [StatusLine ''HTTP/1.1'' 200, HeaderLine ''Cache-Control'' ''no-store'',
                      HeaderLine ''Content-Type'' (format_s (FILE_MIMETYPE s))])
               # map Body blocks"
  using do_GET_file_no_fault [OF assms(1-3), of fs sched] assms(4)
  by auto

text \<open>
  An instance: a file whose third read fails.
\<close>

theorem file_failure_propagates_witness:
  "fst (do_GET (map_of [(''report.pdf'', ([''%PDF'', ''-1.7''], False))]) []
          (new_handler (module_init\<lparr>FILE_PATH := Some ''report.pdf'',
                                     FILE_MIMETYPE := Some ''application/pdf''\<rparr>) ''/file'' None))
     = Raised OSError
   \<and> wfile (snd (do_GET (map_of [(''report.pdf'', ([''%PDF'', ''-1.7''], False))]) []
          (new_handler (module_init\<lparr>FILE_PATH := Some ''report.pdf'',
                                     FILE_MIMETYPE := Some ''application/pdf''\<rparr>) ''/file'' None)))
     = [Head [StatusLine ''HTTP/1.1'' 200, HeaderLine ''Cache-Control'' ''no-store'',
              HeaderLine ''Content-Type'' ''application/pdf''],
        Body ''%PDF'', Body ''-1.7'']"
proof -
  let ?h = "new_handler (module_init\<lparr>FILE_PATH := Some ''report.pdf'',
                                     FILE_MIMETYPE := Some ''application/pdf''\<rparr>) ''/file'' None"
  let ?fs = "map_of [(''report.pdf'', ([''%PDF'', ''-1.7''], False))]"
  have a: "path ?h = ''/file''" by (simp add: new_handler_def)
  have b: "FILE_PATH ?h = Some ''report.pdf''" by (simp add: new_handler_def)
  have c: "fault ?h = None" by (simp add: new_handler_def)
  have d: "?fs ''report.pdf'' = None \<and> [''%PDF'', ''-1.7''] = []
           \<or> ?fs ''report.pdf'' = Some ([''%PDF'', ''-1.7''], False)" by simp
  show ?thesis
    using file_failure_propagates
            [where s = ?h and p = "''report.pdf''" and fs = ?fs
               and blocks = "[''%PDF'', ''-1.7'']" and sched = "[]", OF a b c d]
    by (simp add: new_handler_def format_s_def)
qed

text \<open>
  C7. For a path other than \<^verbatim>\<open>/\<close>, \<^verbatim>\<open>/file\<close> and \<^verbatim>\<open>/refresh\<close>, the handler does
  \<^verbatim>\<open>send_error(HTTPStatus.NOT_FOUND)\<close> and nothing else: on a working connection the
  client gets the status line 404 with the library's error headers and error page.
\<close>

theorem unknown_path_not_found:
  assumes "path s \<noteq> ''/''" and "path s \<noteq> ''/file''" and "path s \<noteq> ''/refresh''"
  shows "do_GET_body fs sched s = send_error NOT_FOUND s
         \<and> (fault s = None \<longrightarrow>
              fst (do_GET fs sched s) = Returned
              \<and> wfile (snd (do_GET fs sched s))
                  = wfile s @
                    [Head (headers_buffer s @
                           [StatusLine (protocol_version s) 404,
                            HeaderLine ''Connection'' ''close'',
                            HeaderLine ''Content-Type'' ''text/html;charset=utf-8'']),
                     ErrorPage 404])"
  using assms
  by (simp add: do_GET_def do_GET_body_def send_error_def http_eval)

text \<open>
  An instance: \<^verbatim>\<open>GET /favicon.ico\<close>.
\<close>

theorem unknown_path_not_found_witness:
  "fst (do_GET (map_of []) [] (new_handler module_init ''/favicon.ico'' None)) = Returned
   \<and> wfile (snd (do_GET (map_of []) [] (new_handler module_init ''/favicon.ico'' None)))
     = [Head [StatusLine ''HTTP/1.0'' 404, HeaderLine ''Connection'' ''close'',
              HeaderLine ''Content-Type'' ''text/html;charset=utf-8''],
        ErrorPage 404]"
proof -
  let ?h = "new_handler module_init ''/favicon.ico'' None"
  have a: "path ?h \<noteq> ''/''" and b: "path ?h \<noteq> ''/file''" and c: "path ?h \<noteq> ''/refresh''"
    by (simp_all add: new_handler_def)
  have d: "fault ?h = None" by (simp add: new_handler_def)
  show ?thesis
    using unknown_path_not_found [OF a b c, of "map_of []" "[]"] d
    by (simp add: new_handler_def)
qed

text \<open>
  C10. \<^verbatim>\<open>GET /\<close> on a working connection returns after writing status 200 with the
  single header \<^verbatim>\<open>Content-Type: text/html\<close> and then the index document; there is no
  \<^verbatim>\<open>Cache-Control\<close> line, while the responses to \<^verbatim>\<open>/file\<close> and \<^verbatim>\<open>/refresh\<close> both
  start with a head that has \<^verbatim>\<open>Cache-Control: no-store\<close>.
\<close>

theorem index_response:
  assumes "path s = ''/''" and "fault s = None"
  shows "fst (do_GET fs sched s) = Returned
         \<and> wfile (snd (do_GET fs sched s))
             = wfile s @
               [Head (headers_buffer s @
                      [StatusLine ''HTTP/1.1'' 200, HeaderLine ''Content-Type'' ''text/html'']),
                Body indexData]
         \<and> take 1 (wfile (snd (do_GET fs sched (new_handler m ''/file'' None))))
             = [Head [StatusLine ''HTTP/1.1'' 200, HeaderLine ''Cache-Control'' ''no-store'',
                      HeaderLine ''Content-Type'' (format_s (FILE_MIMETYPE m))]]
         \<and> take 1 (wfile (snd (do_GET fs sched (new_handler m ''/refresh'' None))))
             = [Head [StatusLine ''HTTP/1.1'' 200, HeaderLine ''Cache-Control'' ''no-store'',
                      HeaderLine ''Content-Type'' ''text/event-stream'']]"
proof -
  have index: "fst (do_GET fs sched s) = Returned
         \<and> wfile (snd (do_GET fs sched s))
             = wfile s @
               [Head (headers_buffer s @
                      [StatusLine ''HTTP/1.1'' 200, HeaderLine ''Content-Type'' ''text/html'']),
                Body indexData]"
    using assms by (simp add: do_GET_def do_GET_body_def http_eval)
  have f: "take 1 (wfile (snd (do_GET fs sched (new_handler m ''/file'' None))))
             = [Head [StatusLine ''HTTP/1.1'' 200, HeaderLine ''Cache-Control'' ''no-store'',
                      HeaderLine ''Content-Type'' (format_s (FILE_MIMETYPE m))]]"
    using file_response_head [of "new_handler m ''/file'' None" fs sched]
    by (auto simp: new_handler_def)
  have r: "take 1 (wfile (snd (do_GET fs sched (new_handler m ''/refresh'' None))))
             = [Head [StatusLine ''HTTP/1.1'' 200, HeaderLine ''Cache-Control'' ''no-store'',
                      HeaderLine ''Content-Type'' ''text/event-stream'']]"
    using refresh_response_head [of "new_handler m ''/refresh'' None" fs sched]
    by (auto simp: new_handler_def)
  from index f r show ?thesis by simp
qed

text \<open>
  An instance: \<^verbatim>\<open>GET /\<close> on a fresh connection.
\<close>

theorem index_response_witness:
  "fst (do_GET (map_of []) [] (new_handler module_init ''/'' None)) = Returned
   \<and> wfile (snd (do_GET (map_of []) [] (new_handler module_init ''/'' None)))
       = [Head [StatusLine ''HTTP/1.1'' 200, HeaderLine ''Content-Type'' ''text/html''],
          Body indexData]"
proof -
  let ?h = "new_handler module_init ''/'' None"
  have a: "path ?h = ''/''" and b: "fault ?h = None" by (simp_all add: new_handler_def)
  show ?thesis
    using index_response [OF a b, of "map_of []" "[]" module_init] by (simp add: new_handler_def)
qed

section \<open>Start-up without a MIME type\<close>

lemma main_unguessable:
  assumes "not_mime (mime a)" and "guess_type (filePath a) = None"
  shows "fst (main guess_type bound a m) = (if bound then None else Some OSError)"
    and "FILE_MIMETYPE (snd (main guess_type bound a m)) = None"
    and "FILE_PATH (snd (main guess_type bound a m)) = Some (filePath a)"
  using assms by (simp_all add: main_def log_info_def Let_def)

text \<open>
  C8, as stated: with no MIME type given and none guessed, responses to \<^verbatim>\<open>GET /file\<close> have an
  empty or absent content type. For a file name without an extension, \<^verbatim>\<open>main\<close> leaves
  \<^verbatim>\<open>FILE_MIMETYPE = None\<close>, and the response then carries the header line
  \<^verbatim>\<open>Content-Type: None\<close>: a content type that is present and is the text \<^verbatim>\<open>None\<close>.
\<close>

theorem unguessable_mime_counterexample:
  "wfile (snd (do_GET (map_of [(''notes'', ([''hello''], True))]) []
          (new_handler (snd (main (map_of []) True
                          \<lparr>filePath = ''notes'', mime = None, port = 8080\<rparr> module_init))
             ''/file'' None)))
     = [Head [StatusLine ''HTTP/1.1'' 200, HeaderLine ''Cache-Control'' ''no-store'',
              HeaderLine ''Content-Type'' ''None''],
        Body ''hello'']"
  by (simp add: main_def not_mime_def log_info_def module_init_def of_optional_def
      do_GET_def do_GET_body_def open_and_copy_def new_handler_def http_eval)

text \<open>
  C8, amended. If \<^verbatim>\<open>--mime\<close> is not given (or is empty) and \<^verbatim>\<open>guess_type\<close> finds nothing,
  \<^verbatim>\<open>main\<close> raises nothing and reaches \<^verbatim>\<open>serve_forever\<close> (when the port can be bound) with
  \<^verbatim>\<open>FILE_MIMETYPE = None\<close>, and a \<^verbatim>\<open>GET /file\<close> response then starts with status 200,
  \<^verbatim>\<open>Cache-Control: no-store\<close> and the header line \<^verbatim>\<open>Content-Type: None\<close>.
\<close>

theorem unguessable_mime_sends_None:
  assumes "not_mime (mime a)" and "guess_type (filePath a) = None"
  shows "fst (main guess_type True a m) = None
         \<and> FILE_MIMETYPE (snd (main guess_type True a m)) = None
         \<and> take 1 (wfile (snd (do_GET fs sched
                      (new_handler (snd (main guess_type True a m)) ''/file'' None))))
             = [Head [StatusLine ''HTTP/1.1'' 200, HeaderLine ''Cache-Control'' ''no-store'',
                      HeaderLine ''Content-Type'' ''None'']]"
proof -
  let ?m = "snd (main guess_type True a m)"
  let ?h = "new_handler ?m ''/file'' None"
  have mt: "FILE_MIMETYPE ?m = None" and fp: "FILE_PATH ?m = Some (filePath a)"
    using assms by (simp_all add: main_unguessable)
  have st: "fst (main guess_type True a m) = None"
    using assms by (simp add: main_unguessable)
  have a: "path ?h = ''/file''" and b: "FILE_PATH ?h = Some (filePath a)"
    and c: "fault ?h = None" and d: "FILE_MIMETYPE ?h = None"
    and e: "wfile ?h = []" and f: "headers_buffer ?h = []"
    by (simp_all add: new_handler_def mt fp)
  have "take 1 (wfile (snd (do_GET fs sched ?h)))
          = [Head [StatusLine ''HTTP/1.1'' 200, HeaderLine ''Cache-Control'' ''no-store'',
                   HeaderLine ''Content-Type'' ''None'']]"
    by (simp add: do_GET_file_no_fault(2) [OF a b c] d e f format_s_def)
  with st mt show ?thesis by simp
qed

text \<open>An instance: a file name without an extension, where only \<^verbatim>\<open>notes.txt\<close> is known.\<close>

theorem unguessable_mime_sends_None_witness:
  "fst (main (map_of [(''notes.txt'', ''text/plain'')]) True
          \<lparr>filePath = ''notes'', mime = None, port = 8080\<rparr> module_init) = None
   \<and> snd (main (map_of [(''notes.txt'', ''text/plain'')]) True
          \<lparr>filePath = ''notes'', mime = None, port = 8080\<rparr> module_init)
       = \<lparr>refreshId = 0,
          log = [(INFO, ''MIME type: guessed %r from filePath: %r'', [PyNone, PyStr ''notes'']),
                 (INFO, ''Serving on port %d'', [PyInt 8080])],
          FILE_PATH = Some ''notes'', FILE_MIMETYPE = None\<rparr>
   \<and> take 1 (wfile (snd (do_GET (map_of [(''notes'', ([''hello''], True))]) []
          (new_handler (snd (main (map_of [(''notes.txt'', ''text/plain'')]) True
                          \<lparr>filePath = ''notes'', mime = None, port = 8080\<rparr> module_init))
             ''/file'' None))))
       = [Head [StatusLine ''HTTP/1.1'' 200, HeaderLine ''Cache-Control'' ''no-store'',
                HeaderLine ''Content-Type'' ''None'']]"
proof -
  let ?g = "map_of [(''notes.txt'', ''text/plain'')]"
  let ?a = "\<lparr>filePath = ''notes'', mime = None, port = 8080\<rparr>"
  have a: "not_mime (mime ?a)" by (simp add: not_mime_def)
  have b: "?g (filePath ?a) = None" by simp
  have m: "snd (main ?g True ?a module_init)
       = \<lparr>refreshId = 0,
          log = [(INFO, ''MIME type: guessed %r from filePath: %r'', [PyNone, PyStr ''notes'']),
                 (INFO, ''Serving on port %d'', [PyInt 8080])],
          FILE_PATH = Some ''notes'', FILE_MIMETYPE = None\<rparr>"
    by (simp add: main_def not_mime_def log_info_def module_init_def of_optional_def)
  show ?thesis
    using unguessable_mime_sends_None
            [where a = ?a and guess_type = ?g and m = module_init
               and fs = "map_of [(''notes'', ([''hello''], True))]" and sched = "[]", OF a b]
      m by simp
qed

end
